theory Spec2Isabelle
  imports Main "HOL-Library.Word"
begin

section \<open>Runtime values shared by the codec and the native wrapper\<close>

text \<open>
  A \<open>Uint8Array\<close> is modelled as the list of its bytes. An array is taken to own its
  buffer and to start at byte offset 0, as every array built by \<open>new Uint8Array(n)\<close>, a
  spread or \<open>slice\<close> does; a \<open>DataView\<close> over \<open>array.buffer\<close> then addresses the same
  bytes. JavaScript numbers that hold lengths, byte values, handles and status codes are
  natural numbers here; storing a number into a \<open>Uint8Array\<close> keeps its low eight bits.
\<close>

type_synonym u8 = "8 word"
type_synonym Uint8Array = "u8 list"

datatype exception =
    Error string
  | SmartCardException string
  | PCSCException nat string
  | RangeError

text \<open>Sequencing of a step that may throw with the rest of the function body.\<close>

definition and_then :: "exception + 'a \<Rightarrow> ('a \<Rightarrow> exception + 'b) \<Rightarrow> exception + 'b" where
  "and_then m f = (case m of Inl e \<Rightarrow> Inl e | Inr v \<Rightarrow> f v)"

text \<open>\<open>new Uint8Array(n)\<close>: \<open>n\<close> zero bytes.\<close>

definition new_Uint8Array :: "nat \<Rightarrow> Uint8Array" where
  "new_Uint8Array n = replicate n 0"

text \<open>
  \<open>target.set(source, offset)\<close>: copies \<open>source\<close> into \<open>target\<close> at \<open>offset\<close> and
  throws a RangeError when the source does not fit.
\<close>

definition typed_set :: "Uint8Array \<Rightarrow> Uint8Array \<Rightarrow> nat \<Rightarrow> exception + Uint8Array" where
  "typed_set target source offset =
     (if length target < offset + length source then Inl RangeError
      else Inr (take offset target @ source @ drop (offset + length source) target))"

text \<open>
  \<open>array.slice(start, end)\<close> for non-negative integer arguments: both bounds are clamped
  to the length, and the copy is empty when the clamped start is not below the clamped end.
\<close>

definition js_slice :: "'a list \<Rightarrow> nat \<Rightarrow> nat \<Rightarrow> 'a list" where
  "js_slice xs start fin =
     (let k = min start (length xs); final = min fin (length xs)
      in take (final - k) (drop k xs))"

text \<open>The number stored by \<open>Uint8Array\<close> element assignment: the low eight bits.\<close>

definition to_u8 :: "nat \<Rightarrow> u8" where
  "to_u8 n = of_nat n"

text \<open>\<open>DataView\<close> accessors; each throws a RangeError when the access leaves the view.\<close>

definition uint32_bytes :: "nat \<Rightarrow> bool \<Rightarrow> Uint8Array" where
  "uint32_bytes v littleEndian =
     (let low_first = [to_u8 v, to_u8 (v div 256), to_u8 (v div 65536), to_u8 (v div 16777216)]
      in if littleEndian then low_first else rev low_first)"

definition setUint32 :: "Uint8Array \<Rightarrow> nat \<Rightarrow> nat \<Rightarrow> bool \<Rightarrow> exception + Uint8Array" where
  "setUint32 view byteOffset v littleEndian =
     (if length view < byteOffset + 4 then Inl RangeError
      else Inr (take byteOffset view @ uint32_bytes v littleEndian @ drop (byteOffset + 4) view))"

definition bytes_value :: "Uint8Array \<Rightarrow> nat" where
  "bytes_value bs = foldl (\<lambda>acc b. acc * 256 + unat b) 0 bs"

definition getUint32 :: "Uint8Array \<Rightarrow> nat \<Rightarrow> bool \<Rightarrow> exception + nat" where
  "getUint32 view byteOffset littleEndian =
     (if length view < byteOffset + 4 then Inl RangeError
      else let bs = take 4 (drop byteOffset view)
           in Inr (bytes_value (if littleEndian then rev bs else bs)))"

definition getUint16 :: "Uint8Array \<Rightarrow> nat \<Rightarrow> exception + nat" where
  "getUint16 view byteOffset =
     (if length view < byteOffset + 2 then Inl RangeError
      else Inr (bytes_value (take 2 (drop byteOffset view))))"

text \<open>
  Modelled from the spec: \<open>toUint8Array\<close> of \<open>buffer-utils.ts\<close>, which is not among the
  sources. The codec receives "byte sequences"; a bytes-like value is its byte sequence,
  an omitted one is empty.
\<close>

definition toUint8Array :: "Uint8Array \<Rightarrow> Uint8Array" where
  "toUint8Array bytes = bytes"

section \<open>ISO7816 command APDU (apdu.ts)\<close>

record CommandAPDU =
  cla :: nat
  ins :: nat
  p1 :: nat
  p2 :: nat
  data :: "Uint8Array option"
  le :: "nat option"
  isExtended :: bool
  description :: string

text \<open>The constructor: \<open>data\<close> is converted when given, the description defaults to empty.\<close>

definition new_CommandAPDU ::
  "nat \<Rightarrow> nat \<Rightarrow> nat \<Rightarrow> nat \<Rightarrow> Uint8Array option \<Rightarrow> nat option \<Rightarrow> bool \<Rightarrow> string option \<Rightarrow> CommandAPDU" where
  "new_CommandAPDU c i q1 q2 d e ext options =
     \<lparr> cla = c, ins = i, p1 = q1, p2 = q2,
       data = (case d of None \<Rightarrow> None | Some bs \<Rightarrow> Some (toUint8Array bs)),
       le = e, isExtended = ext,
       description = (case options of None \<Rightarrow> [] | Some s \<Rightarrow> s) \<rparr>"

text \<open>The getters \<open>Lc\<close> and \<open>header\<close>.\<close>

definition Lc :: "CommandAPDU \<Rightarrow> nat" where
  "Lc apdu = (case data apdu of None \<Rightarrow> 0 | Some d \<Rightarrow> length d)"

definition header :: "CommandAPDU \<Rightarrow> Uint8Array" where
  "header apdu = [to_u8 (cla apdu), to_u8 (ins apdu), to_u8 (p1 apdu), to_u8 (p2 apdu)]"

text \<open>
  The length field written before the data and for the expected length: one byte, or
  three bytes \<open>[0x00, n >> 8, n & 0xff]\<close> in extended framing.
\<close>

definition length_field :: "bool \<Rightarrow> nat \<Rightarrow> Uint8Array" where
  "length_field ext n = (if ext then [0, to_u8 (n div 256), to_u8 n] else [to_u8 n])"

text \<open>\<open>CommandAPDU.toBytes\<close>; the protocol option defaults to 1.\<close>

definition toBytes :: "CommandAPDU \<Rightarrow> nat option \<Rightarrow> exception + Uint8Array" where
  "toBytes apdu protocol =
     (let isT0 = ((case protocol of None \<Rightarrow> 1 | Some p \<Rightarrow> p) = 0);
          lc = (case data apdu of None \<Rightarrow> 0 | Some d \<Rightarrow> length d);
          ext = (isExtended apdu \<and> \<not> isT0);
          le0 = (if lc = 0 \<or> \<not> isT0 then (case le apdu of None \<Rightarrow> 0 | Some e \<Rightarrow> e) else 0);
          len = 4 + (if lc = 0 then 0 else if ext then 3 else 1) + lc
                  + (if le0 = 0 then 0 else if ext then 3 else 1);
          raw = new_Uint8Array len
      in and_then (typed_set raw [to_u8 (cla apdu), to_u8 (ins apdu), to_u8 (p1 apdu), to_u8 (p2 apdu)] 0)
          (\<lambda>raw. and_then
             (if 0 < lc
              then and_then (typed_set raw (length_field ext lc) 4)
                     (\<lambda>raw. and_then
                        (typed_set raw (case data apdu of None \<Rightarrow> [] | Some d \<Rightarrow> d)
                           (4 + (if ext then 3 else 1)))
                        (\<lambda>raw. Inr (raw, 4 + (if ext then 3 else 1) + lc)))
              else Inr (raw, 4))
             (\<lambda>(raw, off).
                if 0 < le0 then typed_set raw (length_field ext le0) off else Inr raw)))"

text \<open>\<open>CommandAPDU.from\<close>: the short-form decoder.\<close>

definition CommandAPDU_from :: "Uint8Array \<Rightarrow> string option \<Rightarrow> exception + CommandAPDU" where
  "CommandAPDU_from bytes options =
     (let buffer = toUint8Array bytes
      in if length buffer < 4 then Inl (Error ''CommandAPDU: Invalid buffer'')
         else
           let rest = drop 4 buffer;
               (d, offset) =
                  (if 1 < length rest
                   then (let lc = unat (hd rest)
                         in (Some (js_slice (tl rest) 0 lc), 4 + (1 + lc)))
                   else (None, 4));
               (e, offset) =
                  (if offset < length buffer then (Some (unat (buffer ! offset)), offset + 1)
                   else (None, offset));
               apdu = new_CommandAPDU (unat (buffer ! 0)) (unat (buffer ! 1)) (unat (buffer ! 2))
                        (unat (buffer ! 3)) d e False options
           in if length buffer \<noteq> offset then Inl (SmartCardException ''CommandAPDU: Invalid buffer'')
              else Inr apdu)"

section \<open>ISO7816 response APDU (apdu.ts)\<close>

record ResponseAPDU =
  SW :: nat
  data_R :: Uint8Array
  description_R :: string

text \<open>The constructor decodes a byte sequence; its argument defaults to the empty one.\<close>

definition new_ResponseAPDU :: "Uint8Array option \<Rightarrow> string option \<Rightarrow> exception + ResponseAPDU" where
  "new_ResponseAPDU bytes options =
     (let buffer = toUint8Array (case bytes of None \<Rightarrow> [] | Some bs \<Rightarrow> bs)
      in if length buffer < 2 then Inl (SmartCardException ''ResponseAPDU Buffer invalid'')
         else
           let la = length buffer - 2
           in and_then (getUint16 buffer la)
                (\<lambda>sw. Inr \<lparr> SW = sw, data_R = js_slice buffer 0 la,
                            description_R = (case options of None \<Rightarrow> [] | Some s \<Rightarrow> s) \<rparr>))"

definition La :: "ResponseAPDU \<Rightarrow> nat" where
  "La r = length (data_R r)"

definition set_R :: "ResponseAPDU \<Rightarrow> nat \<Rightarrow> Uint8Array \<Rightarrow> ResponseAPDU" where
  "set_R r sw d = r\<lparr> SW := sw, data_R := toUint8Array d \<rparr>"

text \<open>\<open>ResponseAPDU.init\<close>: both arguments have defaults (0 and the empty sequence).\<close>

definition init_R :: "nat option \<Rightarrow> Uint8Array option \<Rightarrow> exception + ResponseAPDU" where
  "init_R sw d =
     and_then (new_ResponseAPDU None None)
       (\<lambda>r. Inr (set_R r (case sw of None \<Rightarrow> 0 | Some s \<Rightarrow> s)
                        (case d of None \<Rightarrow> [] | Some bs \<Rightarrow> bs)))"

text \<open>
  \<open>ResponseAPDU.toBytes\<close>. An element assignment beyond the end of a typed array is
  ignored, as \<open>list_update\<close> is.
\<close>

definition toBytes_R :: "ResponseAPDU \<Rightarrow> exception + Uint8Array" where
  "toBytes_R r =
     (let bytes = new_Uint8Array (La r + 2)
      in and_then (typed_set bytes (data_R r) 0)
           (\<lambda>bytes. Inr (bytes[La r := to_u8 (SW r div 256), La r + 1 := to_u8 (SW r)])))"


text \<open>The two round trips of the codec: encode, then decode what was encoded.\<close>

definition roundtrip_T1 :: "CommandAPDU \<Rightarrow> exception + CommandAPDU" where
  "roundtrip_T1 apdu = and_then (toBytes apdu (Some 1)) (\<lambda>bytes. CommandAPDU_from bytes None)"

definition roundtrip_R :: "ResponseAPDU \<Rightarrow> exception + ResponseAPDU" where
  "roundtrip_R r = and_then (toBytes_R r) (\<lambda>bytes. new_ResponseAPDU (Some bytes) None)"

section \<open>The native wrapper (pcsc-ffi.ts)\<close>

text \<open>
  The constants imported from \<open>pcsc/pcsc.ts\<close> and \<open>pcsc/reader-state.ts\<close> are not
  defined in these sources; the wrapper is modelled for any values of them.
\<close>

record platform =
  isWin :: bool
  DWORD_SIZE :: nat
  SCARDREADERSTATE_SIZE :: nat
  SCARD_ERROR_TIMEOUT :: nat

text \<open>
  The resource manager is a black box. A call to it is recorded with its arguments, in
  the order of the foreign function's parameters; what it answers is given by a function
  of these arguments: the status code and the bytes it writes into its output buffers.
  Every operation below issues at most one call, so nothing is lost by an answer that
  depends on the arguments alone.
\<close>

datatype native_call =
    Call_SCardGetStatusChange nat nat Uint8Array nat
  | Call_SCardTransmit nat Uint8Array Uint8Array nat Uint8Array Uint8Array Uint8Array
  | Call_SCardControl nat nat Uint8Array nat Uint8Array nat Uint8Array

record symbols =
  symbols_SCardGetStatusChange ::
    "nat \<Rightarrow> nat \<Rightarrow> Uint8Array \<Rightarrow> nat \<Rightarrow> nat \<times> Uint8Array"
  symbols_SCardTransmit ::
    "nat \<Rightarrow> Uint8Array \<Rightarrow> Uint8Array \<Rightarrow> nat \<Rightarrow> Uint8Array \<Rightarrow> Uint8Array \<Rightarrow> Uint8Array
       \<Rightarrow> nat \<times> Uint8Array \<times> Uint8Array"
  symbols_SCardControl ::
    "nat \<Rightarrow> nat \<Rightarrow> Uint8Array \<Rightarrow> nat \<Rightarrow> Uint8Array \<Rightarrow> nat \<Rightarrow> Uint8Array
       \<Rightarrow> nat \<times> Uint8Array \<times> Uint8Array"

text \<open>
  The native side writes into a buffer in place: the buffer keeps its length, the bytes
  written replace a prefix of it.
\<close>

definition native_write :: "Uint8Array \<Rightarrow> Uint8Array \<Rightarrow> Uint8Array" where
  "native_write buf written = take (length buf) written @ drop (length written) buf"

text \<open>
  An operation of the wrapper takes the calls issued so far and returns its outcome (an
  exception thrown or a value) with the calls issued up to then.
\<close>

type_synonym 'a io = "native_call list \<Rightarrow> (exception + 'a) \<times> native_call list"

definition pure_io :: "exception + 'a \<Rightarrow> 'a io" where
  "pure_io r calls = (r, calls)"

definition bind_io :: "'a io \<Rightarrow> ('a \<Rightarrow> 'b io) \<Rightarrow> 'b io" where
  "bind_io m f calls =
     (case m calls of (Inl e, calls') \<Rightarrow> (Inl e, calls') | (Inr v, calls') \<Rightarrow> f v calls')"

definition call_native :: "native_call \<Rightarrow> 'r \<Rightarrow> 'r io" where
  "call_native c answer calls = (Inr answer, calls @ [c])"

definition ensureSCardSuccess :: "nat \<Rightarrow> string \<Rightarrow> exception + unit" where
  "ensureSCardSuccess rc func = (if rc \<noteq> 0 then Inl (PCSCException rc func) else Inr ())"

definition SCardTransmit ::
  "platform \<Rightarrow> symbols \<Rightarrow> nat \<Rightarrow> Uint8Array \<Rightarrow> nat \<Rightarrow> Uint8Array io" where
  "SCardTransmit pf pcsc hCard sendBuffer recvLength =
     bind_io (pure_io (and_then (setUint32 (new_Uint8Array 8) 0 1 True)
                                (\<lambda>view. setUint32 view 4 8 True))) (\<lambda>pioSendPci.
     bind_io (pure_io (typed_set (new_Uint8Array 8) pioSendPci 0)) (\<lambda>pioRecvPci.
     let recvBuffer = new_Uint8Array (recvLength + 2) in
     bind_io (pure_io (setUint32 (new_Uint8Array (DWORD_SIZE pf)) 0 (length recvBuffer) (isWin pf)))
       (\<lambda>len.
     bind_io (call_native
                (Call_SCardTransmit hCard pioSendPci sendBuffer (length sendBuffer)
                   pioRecvPci recvBuffer len)
                (symbols_SCardTransmit pcsc hCard pioSendPci sendBuffer (length sendBuffer)
                   pioRecvPci recvBuffer len)) (\<lambda>(rc, recvWritten, lenWritten).
     bind_io (pure_io (ensureSCardSuccess rc ''SCardTransmit'')) (\<lambda>_.
     bind_io (pure_io (getUint32 (native_write len lenWritten) 0 True)) (\<lambda>recvLength.
     pure_io (Inr (js_slice (native_write recvBuffer recvWritten) 0 recvLength))))))))"

definition SCardControl ::
  "platform \<Rightarrow> symbols \<Rightarrow> nat \<Rightarrow> nat \<Rightarrow> Uint8Array \<Rightarrow> Uint8Array \<Rightarrow> nat io" where
  "SCardControl pf pcsc hCard ioctl dataIn dataOut =
     bind_io (pure_io (setUint32 (new_Uint8Array (DWORD_SIZE pf)) (length dataOut) 0 True))
       (\<lambda>outLen.
     bind_io (call_native
                (Call_SCardControl hCard ioctl dataIn (length dataIn) dataOut (length dataOut)
                   outLen)
                (symbols_SCardControl pcsc hCard ioctl dataIn (length dataIn) dataOut
                   (length dataOut) outLen)) (\<lambda>(rc, dataWritten, lenWritten).
     bind_io (pure_io (ensureSCardSuccess rc ''SCardControl'')) (\<lambda>_.
     pure_io (getUint32 (native_write outLen lenWritten) 0 True))))"

text \<open>
  The base class \<open>SCARDREADERSTATE\<close> of the reader states is declared in
  \<open>pcsc/reader-state.ts\<close>, outside these sources. The wrapper uses its \<open>buffer\<close> field
  and its \<open>handleChange\<close> method only, which are parameters here: \<open>handleChange\<close> is
  given a record, may throw, and returns whether the state changed with the state as it
  has updated it.
\<close>

record 'st SCARDREADERSTATE =
  buffer :: "'st \<Rightarrow> Uint8Array"
  handleChange :: "'st \<Rightarrow> Uint8Array \<Rightarrow> exception + bool \<times> 'st"

text \<open>The first \<open>forEach\<close> of \<open>SCardGetStatusChange\<close>: every state's record into its slot.\<close>

fun forEach_set ::
  "nat \<Rightarrow> ('st \<Rightarrow> Uint8Array) \<Rightarrow> Uint8Array \<Rightarrow> nat \<Rightarrow> 'st list \<Rightarrow> exception + Uint8Array" where
  "forEach_set sz buf stateBuffer index [] = Inr stateBuffer"
| "forEach_set sz buf stateBuffer index (state # states) =
     (case typed_set stateBuffer (buf state) (index * sz) of
        Inl e \<Rightarrow> Inl e
      | Inr stateBuffer' \<Rightarrow> forEach_set sz buf stateBuffer' (Suc index) states)"

text \<open>
  The second \<open>forEach\<close>: \<open>handleChange\<close> on
  \<open>stateBuffer.slice(index * SCARDREADERSTATE_SIZE, SCARDREADERSTATE_SIZE)\<close> for every
  state, keeping the states that report a change.
\<close>

fun forEach_handleChange ::
  "nat \<Rightarrow> ('st \<Rightarrow> Uint8Array \<Rightarrow> exception + bool \<times> 'st) \<Rightarrow> Uint8Array \<Rightarrow> nat \<Rightarrow> 'st list
     \<Rightarrow> exception + 'st list" where
  "forEach_handleChange sz hc stateBuffer index [] = Inr []"
| "forEach_handleChange sz hc stateBuffer index (state # states) =
     (case hc state (js_slice stateBuffer (index * sz) sz) of
        Inl e \<Rightarrow> Inl e
      | Inr (changed, state') \<Rightarrow>
          (case forEach_handleChange sz hc stateBuffer (Suc index) states of
             Inl e \<Rightarrow> Inl e
           | Inr rest \<Rightarrow> Inr (if changed then state' # rest else rest)))"

definition SCardGetStatusChange ::
  "platform \<Rightarrow> symbols \<Rightarrow> 'st SCARDREADERSTATE \<Rightarrow> nat \<Rightarrow> nat \<Rightarrow> 'st list \<Rightarrow> 'st list io" where
  "SCardGetStatusChange pf pcsc cls hContext timeout states =
     bind_io (pure_io (forEach_set (SCARDREADERSTATE_SIZE pf) (buffer cls)
                         (new_Uint8Array (SCARDREADERSTATE_SIZE pf * length states)) 0 states))
       (\<lambda>stateBuffer.
     bind_io (call_native
                (Call_SCardGetStatusChange hContext timeout stateBuffer (length states))
                (symbols_SCardGetStatusChange pcsc hContext timeout stateBuffer (length states)))
       (\<lambda>(res, written).
     if res = SCARD_ERROR_TIMEOUT pf then pure_io (Inr [])
     else
       bind_io (pure_io (ensureSCardSuccess res ''SCardGetStatusChange'')) (\<lambda>_.
       pure_io (forEach_handleChange (SCARDREADERSTATE_SIZE pf) (handleChange cls)
                  (native_write stateBuffer written) 0 states))))"

section \<open>The card of the FFI wrapper (FFICard)\<close>

text \<open>Of the reader, \<open>FFICard\<close> reads the status only.\<close>

record FFIReader =
  status :: string

record FFICard =
  reader :: FFIReader
  handle :: nat
  protocol :: nat

definition isConnected :: "FFICard \<Rightarrow> bool" where
  "isConnected crd = (status (reader crd) \<noteq> ''connected'')"

text \<open>\<open>FFICard.transmit\<close>; \<open>!this.#handle\<close> holds of the handle 0.\<close>

definition transmit ::
  "platform \<Rightarrow> symbols \<Rightarrow> FFICard \<Rightarrow> Uint8Array \<Rightarrow> nat option \<Rightarrow> Uint8Array io" where
  "transmit pf pcsc crd command expectedLen =
     (if handle crd = 0 then pure_io (Inl (SmartCardException ''SmartCard disconected''))
      else SCardTransmit pf pcsc (handle crd) command
             (2 + (case expectedLen of None \<Rightarrow> 256 | Some n \<Rightarrow> n)))"

text \<open>The receive buffers that the calls to the native transmit were given: their lengths.\<close>

fun recvBuffer_lengths :: "native_call list \<Rightarrow> nat list" where
  "recvBuffer_lengths [] = []"
| "recvBuffer_lengths (Call_SCardTransmit h sp sb sl rp recvBuffer len # calls) =
     length recvBuffer # recvBuffer_lengths calls"
| "recvBuffer_lengths (c # calls) = recvBuffer_lengths calls"

section \<open>Sample inputs\<close>

text \<open>
  Concrete values of the parameters, for the instances below: a platform with four-byte
  double words and four-byte reader-state records and the PC/SC timeout code; a resource
  manager with one fixed answer; reader states that are their own record, changed when
  the new record differs; a card with a given handle.
\<close>

definition sample_platform :: platform where
  "sample_platform = \<lparr> isWin = False, DWORD_SIZE = 4, SCARDREADERSTATE_SIZE = 4,
                        SCARD_ERROR_TIMEOUT = 0x8010000A \<rparr>"

definition sample_symbols :: "nat \<Rightarrow> Uint8Array \<Rightarrow> Uint8Array \<Rightarrow> symbols" where
  "sample_symbols rc written lenWritten =
     \<lparr> symbols_SCardGetStatusChange = (\<lambda>hContext timeout stateBuffer count. (rc, written)),
       symbols_SCardTransmit = (\<lambda>hCard sp sb sl rp rb len. (rc, written, lenWritten)),
       symbols_SCardControl = (\<lambda>hCard ioctl di dil do dol len. (rc, written, lenWritten)) \<rparr>"

definition sample_class :: "Uint8Array SCARDREADERSTATE" where
  "sample_class = \<lparr> buffer = (\<lambda>state. state),
                     handleChange = (\<lambda>state record. Inr (record \<noteq> state, record)) \<rparr>"

definition sample_card :: "nat \<Rightarrow> FFICard" where
  "sample_card h = \<lparr> reader = \<lparr> status = ''connected'' \<rparr>, handle = h, protocol = 1 \<rparr>"

definition sample_apdu :: "Uint8Array option \<Rightarrow> nat option \<Rightarrow> CommandAPDU" where
  "sample_apdu d e = \<lparr> cla = 0, ins = 0xA4, p1 = 4, p2 = 0, data = d, le = e,
                        isExtended = False, description = ''SELECT'' \<rparr>"

section \<open>Typed arrays and views\<close>

lemma typed_set_fill:
  "off = length pre \<Longrightarrow> length src \<le> n \<Longrightarrow>
   typed_set (pre @ replicate n 0) src off = Inr (pre @ src @ replicate (n - length src) 0)"
  by (simp add: typed_set_def)

lemma typed_set_fill0:
  "length src \<le> n \<Longrightarrow>
   typed_set (replicate n 0) src 0 = Inr (src @ replicate (n - length src) 0)"
  by (simp add: typed_set_def)

lemma typed_set_fill2:
  "off = length a + length b \<Longrightarrow> length src \<le> n \<Longrightarrow>
   typed_set (a @ b @ replicate n 0) src off = Inr (a @ b @ src @ replicate (n - length src) 0)"
  using typed_set_fill [of off "a @ b" src n] by simp

lemma typed_set_fill3:
  "off = length a + length b + length c \<Longrightarrow> length src \<le> n \<Longrightarrow>
   typed_set (a @ b @ c @ replicate n 0) src off
     = Inr (a @ b @ c @ src @ replicate (n - length src) 0)"
  using typed_set_fill [of off "a @ b @ c" src n] by simp

lemma js_slice_prefix: "js_slice xs 0 k = take k xs"
  by (simp add: js_slice_def min_def)

lemma js_slice_empty: "fin \<le> start \<Longrightarrow> js_slice xs start fin = []"
  by (simp add: js_slice_def min_def)

lemma unat_to_u8: "n < 256 \<Longrightarrow> unat (to_u8 n) = n"
  by (simp add: to_u8_def unat_of_nat)

lemma zeros4: "new_Uint8Array 4 = [0, 0, 0, 0]"
  by (simp add: new_Uint8Array_def numeral_eq_Suc)

lemma zeros8: "new_Uint8Array 8 = [0, 0, 0, 0, 0, 0, 0, 0]"
  by (simp add: new_Uint8Array_def numeral_eq_Suc)

lemma length_uint32_bytes: "length (uint32_bytes v e) = 4"
  by (simp add: uint32_bytes_def Let_def)

lemma setUint32_fresh:
  "4 \<le> n \<Longrightarrow> setUint32 (new_Uint8Array n) 0 v e = Inr (uint32_bytes v e @ new_Uint8Array (n - 4))"
  by (simp add: setUint32_def new_Uint8Array_def)

lemma length_native_write: "length (native_write buf written) = length buf"
  by (simp add: native_write_def)

lemma getUint32_written:
  "4 \<le> length buf \<Longrightarrow>
   getUint32 (native_write buf written) 0 True
     = Inr (bytes_value (rev (take 4 (native_write buf written))))"
  by (simp add: getUint32_def length_native_write)

section \<open>The command codec\<close>

text \<open>What \<open>toBytes\<close> writes, field after field; it never throws.\<close>

lemma toBytes_closed:
  "toBytes apdu proto =
     (let isT0 = ((case proto of None \<Rightarrow> 1 | Some p \<Rightarrow> p) = 0);
          d = (case data apdu of None \<Rightarrow> [] | Some d \<Rightarrow> d);
          ext = (isExtended apdu \<and> \<not> isT0);
          le0 = (if d = [] \<or> \<not> isT0 then (case le apdu of None \<Rightarrow> 0 | Some e \<Rightarrow> e) else 0)
      in Inr (header apdu
              @ (if d = [] then [] else length_field ext (length d) @ d)
              @ (if le0 = 0 then [] else length_field ext le0)))"
proof -
  define isT0 where "isT0 = ((case proto of None \<Rightarrow> 1 | Some p \<Rightarrow> p) = (0::nat))"
  define d where "d = (case data apdu of None \<Rightarrow> [] | Some d \<Rightarrow> d)"
  define ext where "ext = (isExtended apdu \<and> \<not> isT0)"
  define le0 where
    "le0 = (if d = [] \<or> \<not> isT0 then (case le apdu of None \<Rightarrow> 0 | Some e \<Rightarrow> e) else 0)"
  define w where "w = (if ext then 3 else 1::nat)"
  define b where "b = (if le0 = 0 then 0 else w)"
  define h where "h = header apdu"
  have lc: "(case data apdu of None \<Rightarrow> 0 | Some d \<Rightarrow> length d) = length d"
    by (simp add: d_def split: option.split)
  have lw: "length (length_field ext n) = w" for n
    by (simp add: length_field_def w_def)
  have hl: "length h = 4"
    by (simp add: h_def header_def)
  have le0': "(if length d = 0 \<or> \<not> isT0 then (case le apdu of None \<Rightarrow> 0 | Some e \<Rightarrow> e) else 0) = le0"
    by (simp add: le0_def)
  have unf: "toBytes apdu proto =
    and_then (typed_set (replicate (4 + (if length d = 0 then 0 else w) + length d + b) 0) h 0)
          (\<lambda>raw. and_then
             (if 0 < length d
              then and_then (typed_set raw (length_field ext (length d)) 4)
                     (\<lambda>raw. and_then (typed_set raw d (4 + w))
                        (\<lambda>raw. Inr (raw, 4 + w + length d)))
              else Inr (raw, 4))
             (\<lambda>(raw, off).
                if 0 < le0 then typed_set raw (length_field ext le0) off else Inr raw))"
    unfolding toBytes_def Let_def lc isT0_def [symmetric] ext_def [symmetric] d_def [symmetric]
      header_def [symmetric] new_Uint8Array_def le0' w_def [symmetric] b_def [symmetric]
      h_def [symmetric]
    by (rule refl)
  have "toBytes apdu proto =
    Inr (h @ (if d = [] then [] else length_field ext (length d) @ d)
           @ (if le0 = 0 then [] else length_field ext le0))"
  proof (cases "d = []")
    case True
    have "typed_set (replicate (4 + b) 0) h 0 = Inr (h @ replicate b 0)"
      by (simp add: typed_set_fill0 hl)
    moreover have
      "(if 0 < le0 then typed_set (h @ replicate b 0) (length_field ext le0) 4
        else Inr (h @ replicate b 0))
       = Inr (h @ (if le0 = 0 then [] else length_field ext le0))"
      by (simp add: b_def typed_set_fill hl lw)
    ultimately show ?thesis
      using True by (simp add: unf and_then_def)
  next
    case False
    have s1: "typed_set (replicate (4 + w + length d + b) 0) h 0
        = Inr (h @ replicate (w + length d + b) 0)"
      by (simp add: typed_set_fill0 hl)
    have s2: "typed_set (h @ replicate (w + length d + b) 0) (length_field ext (length d)) 4
        = Inr (h @ length_field ext (length d) @ replicate (length d + b) 0)"
      by (simp add: typed_set_fill hl lw)
    have s3: "typed_set (h @ length_field ext (length d) @ replicate (length d + b) 0) d (4 + w)
        = Inr (h @ length_field ext (length d) @ d @ replicate b 0)"
      by (simp add: typed_set_fill2 hl lw)
    have s4:
      "(if 0 < le0
        then typed_set (h @ length_field ext (length d) @ d @ replicate b 0)
               (length_field ext le0) (4 + w + length d)
        else Inr (h @ length_field ext (length d) @ d @ replicate b 0))
       = Inr (h @ length_field ext (length d) @ d @ (if le0 = 0 then [] else length_field ext le0))"
      by (simp add: b_def typed_set_fill3 hl lw)
    from False show ?thesis
      by (simp add: unf and_then_def s1 s2 s3 s4)
  qed
  then show ?thesis
    by (simp add: Let_def isT0_def ext_def d_def le0_def h_def)
qed

lemma toBytes_T1_short:
  assumes "\<not> isExtended a"
  shows "toBytes a (Some 1) =
    Inr (header a
         @ (if Lc a = 0 then [] else to_u8 (Lc a) # (case data a of None \<Rightarrow> [] | Some d \<Rightarrow> d))
         @ (case le a of None \<Rightarrow> [] | Some e \<Rightarrow> if e = 0 then [] else [to_u8 e]))"
  using assms
  by (simp add: toBytes_closed Lc_def length_field_def split: option.split)

text \<open>The decoder on the four shapes of a short-form encoding.\<close>

lemma from_header_only:
  "CommandAPDU_from [a, b, c, d] opt
    = Inr (new_CommandAPDU (unat a) (unat b) (unat c) (unat d) None None False opt)"
  by (simp add: CommandAPDU_from_def toUint8Array_def)

lemma from_le_only:
  "CommandAPDU_from [a, b, c, d, e] opt
    = Inr (new_CommandAPDU (unat a) (unat b) (unat c) (unat d) None (Some (unat e)) False opt)"
  by (simp add: CommandAPDU_from_def toUint8Array_def)

lemma from_data:
  "xs \<noteq> [] \<Longrightarrow> unat n = length xs \<Longrightarrow> CommandAPDU_from (a # b # c # d # n # xs) opt
    = Inr (new_CommandAPDU (unat a) (unat b) (unat c) (unat d) (Some xs) None False opt)"
  by (simp add: CommandAPDU_from_def toUint8Array_def js_slice_def)

lemma from_data_le:
  "xs \<noteq> [] \<Longrightarrow> unat n = length xs \<Longrightarrow> CommandAPDU_from (a # b # c # d # n # xs @ [e]) opt
    = Inr (new_CommandAPDU (unat a) (unat b) (unat c) (unat d) (Some xs) (Some (unat e)) False opt)"
  by (simp add: CommandAPDU_from_def toUint8Array_def js_slice_def nth_append)

lemma roundtrip_T1_decoded:
  assumes "cla a < 256" "ins a < 256" "p1 a < 256" "p2 a < 256"
    and "Lc a \<le> 255" and "(case le a of None \<Rightarrow> 0 | Some e \<Rightarrow> e) \<le> 255" and "\<not> isExtended a"
  shows "roundtrip_T1 a = Inr (a\<lparr> data := (if data a = Some [] then None else data a),
                                  le := (if le a = Some 0 then None else le a),
                                  description := [] \<rparr>)"
proof -
  have rt: "roundtrip_T1 a = CommandAPDU_from (header a
         @ (if Lc a = 0 then [] else to_u8 (Lc a) # (case data a of None \<Rightarrow> [] | Some d \<Rightarrow> d))
         @ (case le a of None \<Rightarrow> [] | Some e \<Rightarrow> if e = 0 then [] else [to_u8 e])) None"
    by (simp only: roundtrip_T1_def toBytes_T1_short [OF assms(7)] and_then_def sum.case)
  obtain c i q1 q2 d e x s where fields:
    "a = \<lparr>cla = c, ins = i, p1 = q1, p2 = q2, data = d, le = e, isExtended = x, description = s\<rparr>"
    by (cases a)
  from assms fields have b: "c < 256" "i < 256" "q1 < 256" "q2 < 256" "\<not> x"
    by simp_all
  show ?thesis
  proof (cases d)
    case None
    with assms fields b show ?thesis
      unfolding rt
      by (cases e)
         (simp_all add: header_def Lc_def from_header_only from_le_only new_CommandAPDU_def
            unat_to_u8)
  next
    case (Some bs)
    show ?thesis
    proof (cases "bs = []")
      case True
      with assms fields b Some show ?thesis
        unfolding rt
        by (cases e)
           (simp_all add: header_def Lc_def from_header_only from_le_only new_CommandAPDU_def
              unat_to_u8)
    next
      case False
      from assms fields Some have "length bs < 256"
        by (simp add: Lc_def)
      then have n: "unat (to_u8 (length bs)) = length bs"
        by (rule unat_to_u8)
      from assms fields b Some False n show ?thesis
        unfolding rt
        by (cases e)
           (simp_all add: header_def Lc_def from_data from_data_le new_CommandAPDU_def
              unat_to_u8 toUint8Array_def)
    qed
  qed
qed

section \<open>The response codec\<close>

lemma toBytes_R_closed: "toBytes_R r = Inr (data_R r @ [to_u8 (SW r div 256), to_u8 (SW r)])"
proof -
  have "typed_set (new_Uint8Array (La r + 2)) (data_R r) 0 = Inr (data_R r @ [0, 0])"
    unfolding new_Uint8Array_def La_def
    by (subst typed_set_fill0) (simp_all add: numeral_2_eq_2)
  then show ?thesis
    by (simp add: toBytes_R_def La_def and_then_def list_update_append)
qed

lemma sw_split: "sw < 65536 \<Longrightarrow> unat (to_u8 (sw div 256)) * 256 + unat (to_u8 sw) = sw"
  by (simp add: to_u8_def unat_of_nat)

lemma roundtrip_R_decoded:
  assumes "SW r < 65536"
  shows "roundtrip_R r = Inr (r\<lparr> description_R := [] \<rparr>)"
  using assms sw_split [of "SW r"]
  by (simp add: roundtrip_R_def toBytes_R_closed and_then_def new_ResponseAPDU_def
        toUint8Array_def getUint16_def js_slice_def bytes_value_def)

section \<open>The native wrapper\<close>

lemma bind_io_pure_Inr: "bind_io (pure_io (Inr v)) f = f v"
  by (rule ext) (simp add: bind_io_def pure_io_def)

lemma bind_io_pure_Inl: "bind_io (pure_io (Inl e)) f = pure_io (Inl e)"
  by (rule ext) (simp add: bind_io_def pure_io_def)

lemma bind_io_call: "bind_io (call_native c answer) f calls = f answer (calls @ [c])"
  by (simp add: bind_io_def call_native_def)

lemma pci_bytes:
  "and_then (setUint32 (new_Uint8Array 8) 0 1 True) (\<lambda>view. setUint32 view 4 8 True)
     = Inr [1, 0, 0, 0, 8, 0, 0, 0]"
  unfolding zeros8
  by (simp add: and_then_def setUint32_def uint32_bytes_def to_u8_def)

lemma pci_copy:
  "typed_set (new_Uint8Array 8) [1, 0, 0, 0, 8, 0, 0, 0] 0 = Inr [1, 0, 0, 0, 8, 0, 0, 0]"
  unfolding zeros8 by (simp add: typed_set_def)

lemma recvBuffer_lengths_append:
  "recvBuffer_lengths (xs @ ys) = recvBuffer_lengths xs @ recvBuffer_lengths ys"
  by (induction xs rule: recvBuffer_lengths.induct) simp_all

text \<open>One run of \<open>SCardTransmit\<close> on a platform whose double word holds a 32-bit value.\<close>

lemma SCardTransmit_run:
  assumes "4 \<le> DWORD_SIZE pf"
  shows "SCardTransmit pf pcsc hCard sendBuffer recvLength calls =
     (let pci = [1, 0, 0, 0, 8, 0, 0, 0];
          recvBuffer = new_Uint8Array (recvLength + 2);
          len = uint32_bytes (recvLength + 2) (isWin pf) @ new_Uint8Array (DWORD_SIZE pf - 4)
      in case symbols_SCardTransmit pcsc hCard pci sendBuffer (length sendBuffer) pci recvBuffer len of
           (rc, recvWritten, lenWritten) \<Rightarrow>
             (if rc \<noteq> 0 then Inl (PCSCException rc ''SCardTransmit'')
              else Inr (take (bytes_value (rev (take 4 (native_write len lenWritten))))
                          (native_write recvBuffer recvWritten)),
              calls @ [Call_SCardTransmit hCard pci sendBuffer (length sendBuffer) pci recvBuffer len]))"
proof -
  define pci :: Uint8Array where "pci = [1, 0, 0, 0, 8, 0, 0, 0]"
  define recvBuffer where "recvBuffer = new_Uint8Array (recvLength + 2)"
  define len where
    "len = uint32_bytes (recvLength + 2) (isWin pf) @ new_Uint8Array (DWORD_SIZE pf - 4)"
  obtain rc rw lw where ans:
    "symbols_SCardTransmit pcsc hCard pci sendBuffer (length sendBuffer) pci recvBuffer len
       = (rc, rw, lw)"
    by (rule prod_cases3)
  have l: "length recvBuffer = recvLength + 2"
    by (simp add: recvBuffer_def new_Uint8Array_def)
  have s: "setUint32 (new_Uint8Array (DWORD_SIZE pf)) 0 (recvLength + 2) (isWin pf) = Inr len"
    unfolding len_def by (rule setUint32_fresh [OF assms])
  have g: "getUint32 (native_write len lw) 0 True
      = Inr (bytes_value (rev (take 4 (native_write len lw))))"
    by (rule getUint32_written) (simp add: len_def length_uint32_bytes)
  have "SCardTransmit pf pcsc hCard sendBuffer recvLength calls =
      bind_io (pure_io (ensureSCardSuccess rc ''SCardTransmit'')) (\<lambda>_.
        bind_io (pure_io (getUint32 (native_write len lw) 0 True)) (\<lambda>recvLength.
          pure_io (Inr (js_slice (native_write recvBuffer rw) 0 recvLength))))
        (calls @ [Call_SCardTransmit hCard pci sendBuffer (length sendBuffer) pci recvBuffer len])"
    unfolding SCardTransmit_def Let_def pci_bytes bind_io_pure_Inr pci_copy
    unfolding recvBuffer_def [symmetric] pci_def [symmetric] l s
    by (simp only: bind_io_pure_Inr bind_io_call ans prod.case)
  also have "\<dots> = (if rc \<noteq> 0 then Inl (PCSCException rc ''SCardTransmit'')
              else Inr (take (bytes_value (rev (take 4 (native_write len lw))))
                          (native_write recvBuffer rw)),
              calls @ [Call_SCardTransmit hCard pci sendBuffer (length sendBuffer) pci recvBuffer len])"
    by (simp add: ensureSCardSuccess_def bind_io_pure_Inr bind_io_pure_Inl g pure_io_def
          js_slice_prefix)
  finally show ?thesis
    unfolding Let_def pci_def [symmetric] recvBuffer_def [symmetric] len_def [symmetric]
      ans prod.case .
qed

text \<open>One run of \<open>SCardControl\<close> on a platform with four-byte double words.\<close>

lemma SCardControl_run:
  assumes "DWORD_SIZE pf = 4"
  shows "SCardControl pf pcsc hCard ioctl dataIn dataOut calls =
     (if dataOut \<noteq> [] then (Inl RangeError, calls)
      else (case symbols_SCardControl pcsc hCard ioctl dataIn (length dataIn) [] 0 [0, 0, 0, 0] of
              (rc, dataWritten, lenWritten) \<Rightarrow>
                if rc \<noteq> 0 then Inl (PCSCException rc ''SCardControl'')
                else Inr (bytes_value (rev (native_write [0, 0, 0, 0] lenWritten))),
            calls @ [Call_SCardControl hCard ioctl dataIn (length dataIn) [] 0 [0, 0, 0, 0]]))"
proof (cases "dataOut = []")
  case True
  have s: "setUint32 (new_Uint8Array 4) 0 0 True = Inr [0, 0, 0, 0]"
    unfolding zeros4 by (simp add: setUint32_def uint32_bytes_def to_u8_def)
  have g: "getUint32 (native_write [0, 0, 0, 0] w) 0 True
      = Inr (bytes_value (rev (native_write [0, 0, 0, 0] w)))" for w
    by (simp add: getUint32_def length_native_write)
  from True show ?thesis
    unfolding SCardControl_def assms
    by (simp add: s bind_io_pure_Inr bind_io_call ensureSCardSuccess_def bind_io_pure_Inl g
          pure_io_def split: prod.split)
next
  case False
  then have "setUint32 (new_Uint8Array 4) (length dataOut) 0 True = Inl RangeError"
    by (simp add: setUint32_def new_Uint8Array_def)
  with False show ?thesis
    unfolding SCardControl_def assms
    by (simp add: bind_io_pure_Inl pure_io_def)
qed

text \<open>Marshalling: records of the slot size fill the state buffer one after the other.\<close>

lemma forEach_set_fits:
  "list_all (\<lambda>s. length (buf s) = sz) ss \<Longrightarrow> length pre = i * sz \<Longrightarrow>
   forEach_set sz buf (pre @ replicate (sz * length ss) 0) i ss = Inr (pre @ concat (map buf ss))"
proof (induction ss arbitrary: pre i)
  case Nil
  then show ?case by simp
next
  case (Cons s ss)
  from Cons.prems have len: "length (buf s) = sz"
    and rest: "list_all (\<lambda>s. length (buf s) = sz) ss"
    by simp_all
  have "typed_set (pre @ replicate (sz * length (s # ss)) 0) (buf s) (i * sz)
      = Inr (pre @ buf s @ replicate (sz * length ss) 0)"
    using Cons.prems(2) len by (subst typed_set_fill) simp_all
  moreover have "forEach_set sz buf ((pre @ buf s) @ replicate (sz * length ss) 0) (Suc i) ss
      = Inr ((pre @ buf s) @ concat (map buf ss))"
    using rest Cons.prems(2) len by (intro Cons.IH) simp_all
  ultimately show ?case by simp
qed

lemma marshal_states:
  assumes "list_all (\<lambda>s. length (buf s) = sz) ss"
  shows "forEach_set sz buf (new_Uint8Array (sz * length ss)) 0 ss = Inr (concat (map buf ss))"
  using forEach_set_fits [OF assms, of "[]" 0] by (simp add: new_Uint8Array_def)

text \<open>
  The slice handed to \<open>handleChange\<close>: the first slot at index 0, and nothing at any later
  index, where the start \<open>index * size\<close> is not below the end \<open>size\<close>.
\<close>

lemma js_slice_first_slot: "js_slice buf (0 * sz) sz = take sz buf"
  by (simp add: js_slice_def min_def)

lemma js_slice_later_slot:
  assumes "0 < sz" and "0 < i"
  shows "js_slice buf (i * sz) sz = []"
proof (rule js_slice_empty)
  from assms(2) show "sz \<le> i * sz" by (cases i) simp_all
qed

lemma forEach_handleChange_later:
  "0 < sz \<Longrightarrow> 0 < i \<Longrightarrow>
   forEach_handleChange sz hc stateBuffer i ss = forEach_handleChange sz hc [] i ss"
proof (induction ss arbitrary: i)
  case Nil
  show ?case by simp
next
  case (Cons s ss)
  have "js_slice stateBuffer (i * sz) sz = js_slice [] (i * sz) sz"
    using Cons.prems by (simp add: js_slice_later_slot)
  moreover have
    "forEach_handleChange sz hc stateBuffer (Suc i) ss = forEach_handleChange sz hc [] (Suc i) ss"
    using Cons.prems by (intro Cons.IH) simp_all
  ultimately show ?case by (simp split: sum.split prod.split)
qed

lemma forEach_handleChange_two:
  assumes "0 < sz"
  shows "forEach_handleChange sz hc stateBuffer 0 [s0, s1] =
    (case hc s0 (take sz stateBuffer) of
       Inl e \<Rightarrow> Inl e
     | Inr (changed0, s0') \<Rightarrow>
         (case hc s1 [] of
            Inl e \<Rightarrow> Inl e
          | Inr (changed1, s1') \<Rightarrow>
              Inr ((if changed0 then [s0'] else []) @ (if changed1 then [s1'] else []))))"
proof -
  have first: "js_slice stateBuffer (0 * sz) sz = take sz stateBuffer"
    by (rule js_slice_first_slot)
  have later: "js_slice stateBuffer (Suc 0 * sz) sz = []"
    using assms by (rule js_slice_later_slot) simp
  show ?thesis
    unfolding forEach_handleChange.simps first later
    by (simp split: sum.split prod.split)
qed

text \<open>
  One run of \<open>SCardGetStatusChange\<close>: marshalling may throw before the native call; after
  the call, the timeout code ends the run with no state, another code that is not 0 with
  the exception, and the code 0 with the states that report a change.
\<close>

lemma SCardGetStatusChange_run:
  "SCardGetStatusChange pf pcsc cls hContext timeout states calls =
    (case forEach_set (SCARDREADERSTATE_SIZE pf) (buffer cls)
            (new_Uint8Array (SCARDREADERSTATE_SIZE pf * length states)) 0 states of
       Inl e \<Rightarrow> (Inl e, calls)
     | Inr stateBuffer \<Rightarrow>
         (case symbols_SCardGetStatusChange pcsc hContext timeout stateBuffer (length states) of
            (res, written) \<Rightarrow>
              (if res = SCARD_ERROR_TIMEOUT pf then Inr []
               else if res \<noteq> 0 then Inl (PCSCException res ''SCardGetStatusChange'')
               else forEach_handleChange (SCARDREADERSTATE_SIZE pf) (handleChange cls)
                      (native_write stateBuffer written) 0 states,
               calls @ [Call_SCardGetStatusChange hContext timeout stateBuffer (length states)])))"
proof (cases "forEach_set (SCARDREADERSTATE_SIZE pf) (buffer cls)
            (new_Uint8Array (SCARDREADERSTATE_SIZE pf * length states)) 0 states")
  case (Inl e)
  then show ?thesis
    by (simp add: SCardGetStatusChange_def bind_io_pure_Inl pure_io_def)
next
  case (Inr stateBuffer)
  obtain res written where ans:
    "symbols_SCardGetStatusChange pcsc hContext timeout stateBuffer (length states) = (res, written)"
    by (rule prod.exhaust)
  have "SCardGetStatusChange pf pcsc cls hContext timeout states calls =
      (if res = SCARD_ERROR_TIMEOUT pf then pure_io (Inr [])
       else bind_io (pure_io (ensureSCardSuccess res ''SCardGetStatusChange'')) (\<lambda>_.
            pure_io (forEach_handleChange (SCARDREADERSTATE_SIZE pf) (handleChange cls)
                  (native_write stateBuffer written) 0 states)))
        (calls @ [Call_SCardGetStatusChange hContext timeout stateBuffer (length states)])"
    unfolding SCardGetStatusChange_def Inr
    by (simp only: bind_io_pure_Inr bind_io_call ans prod.case)
  also have "\<dots> = (if res = SCARD_ERROR_TIMEOUT pf then Inr []
             else if res \<noteq> 0 then Inl (PCSCException res ''SCardGetStatusChange'')
             else forEach_handleChange (SCARDREADERSTATE_SIZE pf) (handleChange cls)
                    (native_write stateBuffer written) 0 states,
             calls @ [Call_SCardGetStatusChange hContext timeout stateBuffer (length states)])"
    by (simp add: ensureSCardSuccess_def bind_io_pure_Inr bind_io_pure_Inl pure_io_def)
  finally show ?thesis
    unfolding Inr sum.case ans prod.case .
qed

text \<open>The same over states whose records have the slot size: marshalling succeeds.\<close>

lemma SCardGetStatusChange_fits:
  assumes "list_all (\<lambda>s. length (buffer cls s) = SCARDREADERSTATE_SIZE pf) states"
  shows "SCardGetStatusChange pf pcsc cls hContext timeout states calls =
    (let stateBuffer = concat (map (buffer cls) states)
     in case symbols_SCardGetStatusChange pcsc hContext timeout stateBuffer (length states) of
          (res, written) \<Rightarrow>
            (if res = SCARD_ERROR_TIMEOUT pf then Inr []
             else if res \<noteq> 0 then Inl (PCSCException res ''SCardGetStatusChange'')
             else forEach_handleChange (SCARDREADERSTATE_SIZE pf) (handleChange cls)
                    (native_write stateBuffer written) 0 states,
             calls @ [Call_SCardGetStatusChange hContext timeout stateBuffer (length states)]))"
  unfolding SCardGetStatusChange_run marshal_states [OF assms] sum.case Let_def
  by (rule refl)

text \<open>The sample values, field by field.\<close>

lemma sample_platform_fields:
  "isWin sample_platform = False"
  "DWORD_SIZE sample_platform = 4"
  "SCARDREADERSTATE_SIZE sample_platform = 4"
  "SCARD_ERROR_TIMEOUT sample_platform = 0x8010000A"
  by (simp_all add: sample_platform_def)

lemma sample_symbols_fields:
  "symbols_SCardGetStatusChange (sample_symbols rc w lw) hContext timeout stateBuffer n = (rc, w)"
  "symbols_SCardTransmit (sample_symbols rc w lw) hCard sp sb sl rp rb len = (rc, w, lw)"
  "symbols_SCardControl (sample_symbols rc w lw) hCard ioctl di dil dout dol len = (rc, w, lw)"
  by (simp_all add: sample_symbols_def)

lemma sample_class_fields:
  "buffer sample_class state = state"
  "handleChange sample_class state record = Inr (record \<noteq> state, record)"
  by (simp_all add: sample_class_def)

lemma sample_card_fields:
  "handle (sample_card h) = h"
  "status (reader (sample_card h)) = ''connected''"
  by (simp_all add: sample_card_def)

section \<open>The claims\<close>

subsection \<open>The APDU codec\<close>

text \<open>
  Claim C3, as amended. A command whose \<open>cla\<close>, \<open>ins\<close>, \<open>p1\<close>, \<open>p2\<close> are single
  bytes, whose data (when present) has at most 255 bytes, whose \<open>le\<close> (when set) is at
  most 255 and which is not extended is encoded under T=1 and decoded again without an
  error; the decoded command has the same \<open>cla\<close>, \<open>ins\<close>, \<open>p1\<close>, \<open>p2\<close>, and the same
  data except that data present but empty comes back absent.
\<close>

theorem roundtrip_T1_short_form:
  assumes "cla a < 256" and "ins a < 256" and "p1 a < 256" and "p2 a < 256"
    and "Lc a \<le> 255"
    and "(case le a of None \<Rightarrow> 0 | Some e \<Rightarrow> e) \<le> 255"
    and "\<not> isExtended a"
  shows "\<exists>decoded. roundtrip_T1 a = Inr decoded
           \<and> cla decoded = cla a \<and> ins decoded = ins a
           \<and> p1 decoded = p1 a \<and> p2 decoded = p2 a
           \<and> data decoded = (if data a = Some [] then None else data a)"
  using roundtrip_T1_decoded [OF assms] by simp

theorem roundtrip_T1_short_form_witness:
  "cla (sample_apdu (Some [1, 2, 3]) (Some 5)) < 256
   \<and> ins (sample_apdu (Some [1, 2, 3]) (Some 5)) < 256
   \<and> p1 (sample_apdu (Some [1, 2, 3]) (Some 5)) < 256
   \<and> p2 (sample_apdu (Some [1, 2, 3]) (Some 5)) < 256
   \<and> Lc (sample_apdu (Some [1, 2, 3]) (Some 5)) \<le> 255
   \<and> (case le (sample_apdu (Some [1, 2, 3]) (Some 5)) of None \<Rightarrow> 0 | Some e \<Rightarrow> e) \<le> 255
   \<and> \<not> isExtended (sample_apdu (Some [1, 2, 3]) (Some 5))
   \<and> (\<exists>decoded. roundtrip_T1 (sample_apdu (Some [1, 2, 3]) (Some 5)) = Inr decoded
         \<and> cla decoded = 0 \<and> ins decoded = 0xA4 \<and> p1 decoded = 4 \<and> p2 decoded = 0
         \<and> data decoded = Some [1, 2, 3])"
  using roundtrip_T1_short_form [of "sample_apdu (Some [1, 2, 3]) (Some 5)"]
  by (simp add: sample_apdu_def Lc_def)

text \<open>
  The claim as stated fails for data that is present but empty: the encoding is the bare
  header, and the decoder leaves the data of a bare header absent.
\<close>

theorem roundtrip_T1_empty_data_counterexample:
  "roundtrip_T1 (sample_apdu (Some []) None) = Inr (sample_apdu None None \<lparr> description := [] \<rparr>)
   \<and> data (sample_apdu (Some []) None) = Some []
   \<and> data (sample_apdu None None \<lparr> description := [] \<rparr>) \<noteq> data (sample_apdu (Some []) None)"
  using roundtrip_T1_decoded [of "sample_apdu (Some []) None"]
  by (simp add: sample_apdu_def Lc_def)

text \<open>
  Claim C4. For every byte sequence and every 16-bit status word, \<open>toBytes\<close> of the
  response succeeds with the data followed by the high and the low byte of the status
  word, and the constructor decodes that encoding to the same data and status word (the
  description is the constructor's default).
\<close>

theorem ResponseAPDU_roundtrip:
  assumes "SW r < 65536"
  shows "toBytes_R r = Inr (data_R r @ [to_u8 (SW r div 256), to_u8 (SW r)])
         \<and> roundtrip_R r = Inr (r\<lparr> description_R := [] \<rparr>)
         \<and> data_R (r\<lparr> description_R := [] \<rparr>) = data_R r
         \<and> SW (r\<lparr> description_R := [] \<rparr>) = SW r"
  using roundtrip_R_decoded [OF assms] by (simp add: toBytes_R_closed)

theorem ResponseAPDU_roundtrip_witness:
  "SW \<lparr> SW = 0x9000, data_R = [1, 2], description_R = ''ok'' \<rparr> < 65536
   \<and> toBytes_R \<lparr> SW = 0x9000, data_R = [1, 2], description_R = ''ok'' \<rparr> = Inr [1, 2, 0x90, 0]
   \<and> roundtrip_R \<lparr> SW = 0x9000, data_R = [1, 2], description_R = ''ok'' \<rparr>
       = Inr \<lparr> SW = 0x9000, data_R = [1, 2], description_R = [] \<rparr>"
  using ResponseAPDU_roundtrip [of "\<lparr> SW = 0x9000, data_R = [1, 2], description_R = ''ok'' \<rparr>"]
  by (simp add: to_u8_def)

text \<open>
  Claim C6. Under T=0 the encoding is the header followed either by a one-byte Le (when
  there is no data and \<open>le\<close> is set and not 0) or by a one-byte Lc and the data (when there
  is data): no three-byte length field is written, whatever \<open>isExtended\<close> says, and no Le
  follows the data.
\<close>

theorem toBytes_T0_framing:
  "toBytes apdu (Some 0) =
     Inr (header apdu
          @ (if Lc apdu = 0
             then (case le apdu of None \<Rightarrow> [] | Some e \<Rightarrow> if e = 0 then [] else [to_u8 e])
             else to_u8 (Lc apdu) # (case data apdu of None \<Rightarrow> [] | Some d \<Rightarrow> d)))
   \<and> toBytes (apdu\<lparr> isExtended := True \<rparr>) (Some 0) = toBytes (apdu\<lparr> isExtended := False \<rparr>) (Some 0)"
  by (simp add: toBytes_closed Lc_def header_def length_field_def split: option.split)

text \<open>
  Claim C8. \<open>ResponseAPDU.init\<close> throws for every status word and every data: the
  constructor it calls first is given no bytes and rejects a buffer shorter than 2.
\<close>

theorem ResponseAPDU_init_throws:
  "init_R sw d = Inl (SmartCardException ''ResponseAPDU Buffer invalid'')"
  by (simp add: init_R_def new_ResponseAPDU_def toUint8Array_def and_then_def)

subsection \<open>The card\<close>

text \<open>
  Claim C2, as amended. On a connected card (handle not 0), \<open>transmit\<close> with an expected
  length issues one native transmit call whose receive buffer is \<open>expectedLen + 4\<close> bytes
  long (\<open>transmit\<close> adds 2 and \<open>SCardTransmit\<close> adds 2 again), and when that call succeeds
  the result is this buffer, as the call has filled it, cut to the length that the call
  reports in the length word. (The double word is taken to hold a 32-bit value.)
\<close>

theorem transmit_receive_buffer:
  assumes "handle crd \<noteq> 0" and "4 \<le> DWORD_SIZE pf"
  shows "transmit pf pcsc crd command (Some expectedLen) calls =
     (let pci = [1, 0, 0, 0, 8, 0, 0, 0];
          recvBuffer = new_Uint8Array (expectedLen + 4);
          len = uint32_bytes (expectedLen + 4) (isWin pf) @ new_Uint8Array (DWORD_SIZE pf - 4)
      in case symbols_SCardTransmit pcsc (handle crd) pci command (length command) pci recvBuffer len of
           (rc, recvWritten, lenWritten) \<Rightarrow>
             (if rc \<noteq> 0 then Inl (PCSCException rc ''SCardTransmit'')
              else Inr (take (bytes_value (rev (take 4 (native_write len lenWritten))))
                          (native_write recvBuffer recvWritten)),
              calls @ [Call_SCardTransmit (handle crd) pci command (length command) pci recvBuffer len]))
     \<and> recvBuffer_lengths (snd (transmit pf pcsc crd command (Some expectedLen) calls))
         = recvBuffer_lengths calls @ [expectedLen + 4]"
proof -
  have t: "transmit pf pcsc crd command (Some expectedLen) calls
      = SCardTransmit pf pcsc (handle crd) command (expectedLen + 2) calls"
    using assms(1) by (simp add: transmit_def)
  have four: "expectedLen + 2 + 2 = expectedLen + 4"
    by simp
  show ?thesis
    unfolding t SCardTransmit_run [OF assms(2)] four
    by (simp add: Let_def recvBuffer_lengths_append new_Uint8Array_def split: prod.split)
qed

theorem transmit_receive_buffer_witness:
  "handle (sample_card 5) \<noteq> 0 \<and> 4 \<le> DWORD_SIZE sample_platform
   \<and> fst (transmit sample_platform (sample_symbols 0 [0x90, 0, 7, 7] [2, 0, 0, 0])
              (sample_card 5) [0, 0xA4, 4, 0] (Some 0) [])
      = Inr [0x90, 0]
   \<and> recvBuffer_lengths
        (snd (transmit sample_platform (sample_symbols 0 [0x90, 0, 7, 7] [2, 0, 0, 0])
                (sample_card 5) [0, 0xA4, 4, 0] (Some 0) []))
      = [0 + 4]"
  using transmit_receive_buffer [of "sample_card 5" sample_platform
          "sample_symbols 0 [0x90, 0, 7, 7] [2, 0, 0, 0]" "[0, 0xA4, 4, 0]" 0 "[]"]
  by (simp add: sample_platform_fields sample_symbols_fields sample_card_fields zeros4
        uint32_bytes_def to_u8_def native_write_def bytes_value_def Let_def)

text \<open>
  The claim as stated fails: with expected length 0 the native call is given a receive
  buffer of 4 bytes, not of \<open>0 + 2\<close>.
\<close>

theorem transmit_receive_buffer_counterexample:
  "recvBuffer_lengths
     (snd (transmit sample_platform (sample_symbols 0 [0x90, 0, 7, 7] [2, 0, 0, 0])
             (sample_card 5) [0, 0xA4, 4, 0] (Some 0) []))
     = [4]
   \<and> recvBuffer_lengths
     (snd (transmit sample_platform (sample_symbols 0 [0x90, 0, 7, 7] [2, 0, 0, 0])
             (sample_card 5) [0, 0xA4, 4, 0] (Some 0) []))
     \<noteq> [0 + 2]"
proof -
  have "transmit sample_platform (sample_symbols 0 [0x90, 0, 7, 7] [2, 0, 0, 0]) (sample_card 5)
          [0, 0xA4, 4, 0] (Some 0) []
        = SCardTransmit sample_platform (sample_symbols 0 [0x90, 0, 7, 7] [2, 0, 0, 0]) 5
            [0, 0xA4, 4, 0] 2 []"
    by (simp add: transmit_def sample_card_fields)
  then show ?thesis
    by (simp add: SCardTransmit_run sample_platform_fields sample_symbols_fields zeros4 Let_def)
qed

text \<open>
  Claim C7. On a card whose handle is 0, \<open>transmit\<close> throws the SmartCardException for
  every command and every expected length, and no native call is issued: the calls are
  those that were issued before.
\<close>

theorem transmit_disconnected:
  assumes "handle crd = 0"
  shows "transmit pf pcsc crd command expectedLen calls
           = (Inl (SmartCardException ''SmartCard disconected''), calls)"
  using assms by (simp add: transmit_def pure_io_def)

theorem transmit_disconnected_witness:
  "handle (sample_card 0) = 0
   \<and> transmit sample_platform (sample_symbols 0 [0x90, 0] [2, 0, 0, 0]) (sample_card 0)
        [0, 0xA4, 4, 0] (Some 2) []
      = (Inl (SmartCardException ''SmartCard disconected''), [])"
  using transmit_disconnected [of "sample_card 0" sample_platform
          "sample_symbols 0 [0x90, 0] [2, 0, 0, 0]" "[0, 0xA4, 4, 0]" "Some 2" "[]"]
  by (simp add: sample_card_fields)

text \<open>
  Claim C9. \<open>isConnected\<close> is true exactly when the status of the card's reader is not
  the string "connected"; the card's own handle and protocol do not enter, and a card
  whose reader reports "connected" is not connected.
\<close>

theorem isConnected_reader_status:
  "isConnected crd = (status (reader crd) \<noteq> ''connected'')
   \<and> isConnected (crd\<lparr> handle := h, protocol := p \<rparr>) = isConnected crd
   \<and> isConnected \<lparr> reader = \<lparr> status = ''connected'' \<rparr>, handle = h, protocol = p \<rparr> = False"
  by (simp add: isConnected_def)

subsection \<open>The native wrapper\<close>

text \<open>
  Claim C10. With four-byte double words, \<open>SCardControl\<close> with a \<open>dataOut\<close> of length at
  least 1 throws a RangeError and issues no native call; with an empty \<open>dataOut\<close> it
  issues the native control call.
\<close>

theorem SCardControl_dataOut_range:
  assumes "DWORD_SIZE pf = 4"
  shows "SCardControl pf pcsc hCard ioctl dataIn dataOut calls =
     (if 1 \<le> length dataOut then (Inl RangeError, calls)
      else (case symbols_SCardControl pcsc hCard ioctl dataIn (length dataIn) [] 0 [0, 0, 0, 0] of
              (rc, dataWritten, lenWritten) \<Rightarrow>
                if rc \<noteq> 0 then Inl (PCSCException rc ''SCardControl'')
                else Inr (bytes_value (rev (native_write [0, 0, 0, 0] lenWritten))),
            calls @ [Call_SCardControl hCard ioctl dataIn (length dataIn) [] 0 [0, 0, 0, 0]]))"
  unfolding SCardControl_run [OF assms]
  by (cases dataOut) simp_all

theorem SCardControl_dataOut_range_witness:
  "DWORD_SIZE sample_platform = 4
   \<and> SCardControl sample_platform (sample_symbols 0 [] [2, 0, 0, 0]) 5 0x42000D48 [1] [0] []
       = (Inl RangeError, [])
   \<and> SCardControl sample_platform (sample_symbols 0 [] [2, 0, 0, 0]) 5 0x42000D48 [1] [] []
       = (Inr 2, [Call_SCardControl 5 0x42000D48 [1] 1 [] 0 [0, 0, 0, 0]])"
  using SCardControl_dataOut_range [of sample_platform "sample_symbols 0 [] [2, 0, 0, 0]" 5
          "0x42000D48" "[1]" "[0]" "[]"]
    SCardControl_dataOut_range [of sample_platform "sample_symbols 0 [] [2, 0, 0, 0]" 5
          "0x42000D48" "[1]" "[]" "[]"]
  by (simp add: sample_platform_fields sample_symbols_fields native_write_def bytes_value_def)

text \<open>
  Claim C5, as amended. \<open>SCardGetStatusChange\<close> issues the native call once and never
  again: when the call returns the timeout code the result is the empty sequence and no
  error; for every other code that is not 0 the PCSCException with that code and the name
  "SCardGetStatusChange" is thrown; with the code 0 the result is the sequence of the
  states that report a change, which may be empty as well. (The call is not reached when
  marshalling the states throws.)
\<close>

theorem SCardGetStatusChange_outcomes:
  "SCardGetStatusChange pf pcsc cls hContext timeout states calls =
    (case forEach_set (SCARDREADERSTATE_SIZE pf) (buffer cls)
            (new_Uint8Array (SCARDREADERSTATE_SIZE pf * length states)) 0 states of
       Inl e \<Rightarrow> (Inl e, calls)
     | Inr stateBuffer \<Rightarrow>
         (case symbols_SCardGetStatusChange pcsc hContext timeout stateBuffer (length states) of
            (res, written) \<Rightarrow>
              (if res = SCARD_ERROR_TIMEOUT pf then Inr []
               else if res \<noteq> 0 then Inl (PCSCException res ''SCardGetStatusChange'')
               else forEach_handleChange (SCARDREADERSTATE_SIZE pf) (handleChange cls)
                      (native_write stateBuffer written) 0 states,
               calls @ [Call_SCardGetStatusChange hContext timeout stateBuffer (length states)])))"
  by (rule SCardGetStatusChange_run)

text \<open>
  Instances: one watched reader, the native call returning the timeout code, and then the
  code of another failure.
\<close>

theorem SCardGetStatusChange_outcomes_witness:
  "SCardGetStatusChange sample_platform (sample_symbols 0x8010000A [] []) sample_class
        1 1000 [[1, 0, 0, 0]] []
      = (Inr [], [Call_SCardGetStatusChange 1 1000 [1, 0, 0, 0] 1])
   \<and> SCardGetStatusChange sample_platform (sample_symbols 0x80100017 [] []) sample_class
        1 1000 [[1, 0, 0, 0]] []
      = (Inl (PCSCException 0x80100017 ''SCardGetStatusChange''),
         [Call_SCardGetStatusChange 1 1000 [1, 0, 0, 0] 1])"
proof -
  have m: "forEach_set (SCARDREADERSTATE_SIZE sample_platform) (buffer sample_class)
             (new_Uint8Array (SCARDREADERSTATE_SIZE sample_platform * length [[1, 0, 0, 0 :: u8]]))
             0 [[1, 0, 0, 0]]
           = Inr [1, 0, 0, 0]"
    by (subst marshal_states) (simp_all add: sample_platform_fields sample_class_fields)
  show ?thesis
    using
      SCardGetStatusChange_outcomes [of sample_platform "sample_symbols 0x8010000A [] []"
        sample_class 1 1000 "[[1, 0, 0, 0]]" "[]"]
      SCardGetStatusChange_outcomes [of sample_platform "sample_symbols 0x80100017 [] []"
        sample_class 1 1000 "[[1, 0, 0, 0]]" "[]"]
    unfolding m
    by (simp add: sample_platform_fields sample_symbols_fields)
qed

text \<open>
  The claim as stated fails in one direction: the empty sequence is also the result of a
  call that returns 0, not the timeout code, when no state reports a change, be it that
  no reader is watched or that the record of the watched reader is as it was.
\<close>

theorem SCardGetStatusChange_empty_on_success_counterexample:
  "SCardGetStatusChange sample_platform (sample_symbols 0 [] []) sample_class 1 1000 [] []
     = (Inr [], [Call_SCardGetStatusChange 1 1000 [] 0])
   \<and> SCardGetStatusChange sample_platform (sample_symbols 0 [1, 0, 0, 0] []) sample_class
       1 1000 [[1, 0, 0, 0]] []
     = (Inr [], [Call_SCardGetStatusChange 1 1000 [1, 0, 0, 0] 1])
   \<and> fst (symbols_SCardGetStatusChange (sample_symbols 0 [] []) 1 1000 [] 0)
       \<noteq> SCARD_ERROR_TIMEOUT sample_platform
   \<and> fst (symbols_SCardGetStatusChange (sample_symbols 0 [1, 0, 0, 0] []) 1 1000 [1, 0, 0, 0] 1)
       \<noteq> SCARD_ERROR_TIMEOUT sample_platform"
proof -
  have none: "list_all (\<lambda>s. length (buffer sample_class s) = SCARDREADERSTATE_SIZE sample_platform)
          []"
    by simp
  have one: "list_all (\<lambda>s. length (buffer sample_class s) = SCARDREADERSTATE_SIZE sample_platform)
          [[1, 0, 0, 0]]"
    by (simp add: sample_platform_fields sample_class_fields)
  show ?thesis
    unfolding SCardGetStatusChange_fits [OF none] SCardGetStatusChange_fits [OF one]
    by (simp add: sample_platform_fields sample_symbols_fields sample_class_fields
          native_write_def js_slice_def)
qed

text \<open>
  Claim C1 does not hold of the code. With two watched states whose records have the slot
  size, after a successful native call the first state is handed the first slot of the
  state buffer, and the second state is handed the empty array, whatever the call has
  written into the second slot: the slice for index 1 starts at the slot size and ends at
  the slot size. So it is at every later index: from index 1 on, the states are handled
  as if the state buffer were empty.
\<close>

theorem SCardGetStatusChange_second_reader_unread:
  assumes "0 < SCARDREADERSTATE_SIZE pf"
    and "length (buffer cls s0) = SCARDREADERSTATE_SIZE pf"
    and "length (buffer cls s1) = SCARDREADERSTATE_SIZE pf"
    and "symbols_SCardGetStatusChange pcsc hContext timeout (buffer cls s0 @ buffer cls s1) 2
           = (0, written)"
    and "SCARD_ERROR_TIMEOUT pf \<noteq> 0"
  shows "fst (SCardGetStatusChange pf pcsc cls hContext timeout [s0, s1] calls) =
    (case handleChange cls s0
            (take (SCARDREADERSTATE_SIZE pf) (native_write (buffer cls s0 @ buffer cls s1) written)) of
       Inl e \<Rightarrow> Inl e
     | Inr (changed0, s0') \<Rightarrow>
         (case handleChange cls s1 [] of
            Inl e \<Rightarrow> Inl e
          | Inr (changed1, s1') \<Rightarrow>
              Inr ((if changed0 then [s0'] else []) @ (if changed1 then [s1'] else []))))
    \<and> forEach_handleChange (SCARDREADERSTATE_SIZE pf) (handleChange cls) stateBuffer (Suc index) later
        = forEach_handleChange (SCARDREADERSTATE_SIZE pf) (handleChange cls) [] (Suc index) later"
proof -
  have fits: "list_all (\<lambda>s. length (buffer cls s) = SCARDREADERSTATE_SIZE pf) [s0, s1]"
    using assms(2,3) by simp
  have ans: "symbols_SCardGetStatusChange pcsc hContext timeout
               (concat (map (buffer cls) [s0, s1])) (length [s0, s1]) = (0, written)"
    using assms(4) by (simp add: numeral_2_eq_2)
  have "fst (SCardGetStatusChange pf pcsc cls hContext timeout [s0, s1] calls) =
      forEach_handleChange (SCARDREADERSTATE_SIZE pf) (handleChange cls)
        (native_write (buffer cls s0 @ buffer cls s1) written) 0 [s0, s1]"
    unfolding SCardGetStatusChange_fits [OF fits] Let_def ans prod.case
    using assms(5) by simp
  then have "fst (SCardGetStatusChange pf pcsc cls hContext timeout [s0, s1] calls) =
    (case handleChange cls s0
            (take (SCARDREADERSTATE_SIZE pf) (native_write (buffer cls s0 @ buffer cls s1) written)) of
       Inl e \<Rightarrow> Inl e
     | Inr (changed0, s0') \<Rightarrow>
         (case handleChange cls s1 [] of
            Inl e \<Rightarrow> Inl e
          | Inr (changed1, s1') \<Rightarrow>
              Inr ((if changed0 then [s0'] else []) @ (if changed1 then [s1'] else []))))"
    by (simp only: forEach_handleChange_two [OF assms(1)])
  moreover have
    "forEach_handleChange (SCARDREADERSTATE_SIZE pf) (handleChange cls) stateBuffer (Suc index) later
       = forEach_handleChange (SCARDREADERSTATE_SIZE pf) (handleChange cls) [] (Suc index) later"
    using assms(1) by (rule forEach_handleChange_later) simp
  ultimately show ?thesis
    by (rule conjI)
qed

text \<open>
  An instance: the native call rewrites the record of the second state only (to
  \<open>[9, 0, 0, 0]\<close>). The first state is rightly left out; the second is returned with the
  empty record, not with the record written into its slot.
\<close>

theorem SCardGetStatusChange_second_reader_unread_witness:
  "0 < SCARDREADERSTATE_SIZE sample_platform
   \<and> length (buffer sample_class [1, 0, 0, 0]) = SCARDREADERSTATE_SIZE sample_platform
   \<and> length (buffer sample_class [2, 0, 0, 0]) = SCARDREADERSTATE_SIZE sample_platform
   \<and> symbols_SCardGetStatusChange (sample_symbols 0 [1, 0, 0, 0, 9, 0, 0, 0] []) 1 1000
        (buffer sample_class [1, 0, 0, 0] @ buffer sample_class [2, 0, 0, 0]) 2
       = (0, [1, 0, 0, 0, 9, 0, 0, 0])
   \<and> SCARD_ERROR_TIMEOUT sample_platform \<noteq> 0
   \<and> fst (SCardGetStatusChange sample_platform (sample_symbols 0 [1, 0, 0, 0, 9, 0, 0, 0] [])
             sample_class 1 1000 [[1, 0, 0, 0], [2, 0, 0, 0]] [])
       = Inr [[]]"
  using SCardGetStatusChange_second_reader_unread [of sample_platform sample_class
          "[1, 0, 0, 0]" "[2, 0, 0, 0]" "sample_symbols 0 [1, 0, 0, 0, 9, 0, 0, 0] []" 1 1000
          "[1, 0, 0, 0, 9, 0, 0, 0]" "[]"]
  by (simp add: sample_platform_fields sample_symbols_fields sample_class_fields native_write_def)

end
